theory Spec2Isabelle
  imports Complex_Main
begin

section \<open>Python values and errors\<close>

text \<open>
  The firmware is MicroPython. Its numbers are modelled as \<^typ>\<open>real\<close>: the
  specification speaks of real-valued frequencies, and rounding of the hardware floats
  is outside the model. A raise of the source is a value \<open>Inl e\<close> of a sum type.
\<close>

datatype py_error = ZeroDivisionError | OSError | ValueError | AttributeError

text \<open>Python's true division \<^verbatim>\<open>a / b\<close>: it raises on a zero divisor.\<close>

definition py_truediv :: "real \<Rightarrow> real \<Rightarrow> py_error + real" where
  "py_truediv a b = (if b = 0 then Inl ZeroDivisionError else Inr (a / b))"

section \<open>main.py: the moisture sensor\<close>

text \<open>
  \<^verbatim>\<open>FREQUENCY_SAMPLE_TIME = 2  # seconds to measure pulse frequency\<close>
\<close>

definition FREQUENCY_SAMPLE_TIME :: real where
  "FREQUENCY_SAMPLE_TIME = 2"

text \<open>
  The object state of \<^verbatim>\<open>class MoistureSensor\<close>. The pin is represented by the one
  thing the class does with it: whether \<^verbatim>\<open>count_pulse\<close> is registered as its
  rising-edge handler.
\<close>

record MoistureSensor =
  pulse_count :: nat
  last_frequency :: real
  irq_handler :: bool

text \<open>\<^verbatim>\<open>__init__\<close>: both fields start at 0 and no handler is registered.\<close>

definition MoistureSensor_init :: MoistureSensor where
  "MoistureSensor_init = \<lparr>pulse_count = 0, last_frequency = 0, irq_handler = False\<rparr>"

text \<open>\<^verbatim>\<open>count_pulse\<close>, the interrupt handler: \<^verbatim>\<open>self.pulse_count += 1\<close>.\<close>

definition count_pulse :: "MoistureSensor \<Rightarrow> MoistureSensor" where
  "count_pulse s = s\<lparr>pulse_count := pulse_count s + 1\<rparr>"

text \<open>
  One rising edge on the input line runs the handler when it is registered, and is lost
  otherwise. \<^verbatim>\<open>time.sleep(sample_time)\<close> is the window in which the line sees some
  number of rising edges; that number is the environment's input to the measurement.
\<close>

definition rising_edge :: "MoistureSensor \<Rightarrow> MoistureSensor" where
  "rising_edge s = (if irq_handler s then count_pulse s else s)"

definition sleep_with_edges :: "nat \<Rightarrow> MoistureSensor \<Rightarrow> MoistureSensor" where
  "sleep_with_edges edges s = (rising_edge ^^ edges) s"

text \<open>
  \<^verbatim>\<open>read_frequency\<close> (main.py lines 151 to 171; calibrate.py has the same method):
  \<^verbatim>\<open>
        self.pulse_count = 0
        self.pin.irq(trigger=machine.Pin.IRQ_RISING, handler=self.count_pulse)
        time.sleep(sample_time)
        self.pin.irq(handler=None)
        frequency = self.pulse_count / sample_time
        self.last_frequency = frequency
        return frequency
  \<close>
  The result pairs the returned value, or the error raised, with the object state at
  that point.
\<close>

definition read_frequency ::
  "MoistureSensor \<Rightarrow> nat \<Rightarrow> real \<Rightarrow> (py_error + real) \<times> MoistureSensor" where
  "read_frequency s edges sample_time =
     (let s1 = s\<lparr>pulse_count := 0\<rparr>;
          s2 = s1\<lparr>irq_handler := True\<rparr>;
          s3 = sleep_with_edges edges s2;
          s4 = s3\<lparr>irq_handler := False\<rparr>
      in case py_truediv (real (pulse_count s4)) sample_time of
           Inl e \<Rightarrow> (Inl e, s4)
         | Inr frequency \<Rightarrow> (Inr frequency, s4\<lparr>last_frequency := frequency\<rparr>))"

text \<open>
  The statements of \<^verbatim>\<open>read_moisture_percent\<close> that follow the measurement
  (main.py lines 182 to 191), as a function of the measured frequency:
  \<^verbatim>\<open>
        freq = max(min(freq, dry_freq), wet_freq)
        if dry_freq == wet_freq:
            return 0
        moisture_percent = ((dry_freq - freq) / (dry_freq - wet_freq)) * 100
        return max(0, min(100, moisture_percent))
  \<close>
\<close>

definition to_moisture_percent :: "real \<Rightarrow> real \<Rightarrow> real \<Rightarrow> py_error + real" where
  "to_moisture_percent dry_freq wet_freq freq0 =
     (let freq = max (min freq0 dry_freq) wet_freq in
      if dry_freq = wet_freq then Inr 0
      else (case py_truediv (dry_freq - freq) (dry_freq - wet_freq) of
              Inl e \<Rightarrow> Inl e
            | Inr q \<Rightarrow> (let moisture_percent = q * 100
                       in Inr (max 0 (min 100 moisture_percent)))))"

text \<open>
  \<^verbatim>\<open>read_moisture_percent\<close> as a whole: the measurement
  \<^verbatim>\<open>freq = self.read_frequency(FREQUENCY_SAMPLE_TIME)\<close>, then the conversion.
\<close>

definition read_moisture_percent ::
  "MoistureSensor \<Rightarrow> nat \<Rightarrow> real \<Rightarrow> real \<Rightarrow> (py_error + real) \<times> MoistureSensor" where
  "read_moisture_percent s edges dry_freq wet_freq =
     (case read_frequency s edges FREQUENCY_SAMPLE_TIME of
        (Inl e, s') \<Rightarrow> (Inl e, s')
      | (Inr freq, s') \<Rightarrow> (to_moisture_percent dry_freq wet_freq freq, s'))"

text \<open>
  The reference algorithm, written from the words of the specification (steps 2 and 3 of
  the contract of the conversion): clamp the frequency by \<open>max(min(frequency, d), w)\<close>,
  then \<open>(d - clamped) / (d - w) * 100\<close>.
\<close>

definition spec_moisture_percent :: "real \<Rightarrow> real \<Rightarrow> real \<Rightarrow> real" where
  "spec_moisture_percent d w frequency =
     (let clamped = max (min frequency d) w in (d - clamped) / (d - w) * 100)"

section \<open>The configuration file\<close>

text \<open>
  What \<^verbatim>\<open>json.load\<close> returns: a JSON value. An object is a Python dict, kept as an
  association list read with \<^const>\<open>map_of\<close>.
\<close>

datatype json =
    JNull
  | JBool bool
  | JNum real
  | JStr string
  | JArr "json list"
  | JObj "(string \<times> json) list"

text \<open>
  What reading finds under a name: no file (\<^verbatim>\<open>open(name, 'r')\<close> raises
  \<^verbatim>\<open>OSError\<close>); something that is there and cannot be opened or read, such as a
  directory or a faulty file (\<^verbatim>\<open>OSError\<close> again); a file whose text is no JSON
  document (\<^verbatim>\<open>json.load\<close> raises \<^verbatim>\<open>ValueError\<close>); or the document of one
  JSON value.
\<close>

datatype stored_file = Absent | Unreadable | Unparsable | Document json

text \<open>
  What writing does under a name, in
  \<^verbatim>\<open>
      with open(name, 'w') as f:
          json.dump(data, f)
  \<close>
  Either both statements succeed; or \<^verbatim>\<open>open\<close> raises \<^verbatim>\<open>OSError\<close> (a
  directory, a read-only store, a name that is no file name) and nothing changes; or
  \<^verbatim>\<open>open\<close> has created or emptied the file and \<^verbatim>\<open>json.dump\<close> raises
  \<^verbatim>\<open>OSError\<close> (the store is full), leaving a text that is no JSON document: no
  proper prefix of the text of an object is one.
\<close>

datatype write_access = Writable | OpenRaises | DumpRaises

text \<open>The file store: for every name, what reading finds and what writing does.\<close>

record file_store =
  content :: "string \<Rightarrow> stored_file"
  write_access :: "string \<Rightarrow> write_access"

text \<open>\<^verbatim>\<open>with open(name, 'r') as f: data = json.load(f)\<close>.\<close>

definition json_load :: "file_store \<Rightarrow> string \<Rightarrow> py_error + json" where
  "json_load fs name =
     (case content fs name of
        Absent \<Rightarrow> Inl OSError
      | Unreadable \<Rightarrow> Inl OSError
      | Unparsable \<Rightarrow> Inl ValueError
      | Document j \<Rightarrow> Inr j)"

text \<open>
  \<^verbatim>\<open>with open(name, 'w') as f: json.dump(data, f)\<close>: the value returned or the
  error raised, with the store as it is then.
\<close>

definition json_dump :: "string \<Rightarrow> json \<Rightarrow> file_store \<Rightarrow> (py_error + unit) \<times> file_store" where
  "json_dump name data fs =
     (case write_access fs name of
        Writable \<Rightarrow> (Inr (), fs\<lparr>content := (content fs)(name := Document data)\<rparr>)
      | OpenRaises \<Rightarrow> (Inl OSError, fs)
      | DumpRaises \<Rightarrow> (Inl OSError, fs\<lparr>content := (content fs)(name := Unparsable)\<rparr>))"

text \<open>
  \<^verbatim>\<open>data.get(key, default)\<close>: a method of dicts only; on any other value the
  attribute lookup raises.
\<close>

fun json_get :: "json \<Rightarrow> string \<Rightarrow> json \<Rightarrow> py_error + json" where
  "json_get (JObj kvs) key dflt = (case map_of kvs key of Some v \<Rightarrow> Inr v | None \<Rightarrow> Inr dflt)"
| "json_get _ key dflt = Inl AttributeError"

text \<open>
  The dict both \<^verbatim>\<open>Configuration.save\<close> and \<^verbatim>\<open>save_config\<close> dump:
  \<^verbatim>\<open>{'dry_freq': ..., 'wet_freq': ...}\<close>.
\<close>

definition config_data :: "json \<Rightarrow> json \<Rightarrow> json" where
  "config_data d w = JObj [(''dry_freq'', d), (''wet_freq'', w)]"

subsection \<open>main.py: class Configuration\<close>

record Configuration =
  filename :: string
  dry_freq :: json
  wet_freq :: json

text \<open>
  \<^verbatim>\<open>save\<close>; nothing in it catches an error of the write:
  \<^verbatim>\<open>
        data = {'dry_freq': self.dry_freq, 'wet_freq': self.wet_freq}
        with open(self.filename, 'w') as f:
            json.dump(data, f)
  \<close>
\<close>

definition Configuration_save ::
  "Configuration \<Rightarrow> file_store \<Rightarrow> (py_error + unit) \<times> file_store" where
  "Configuration_save c fs = json_dump (filename c) (config_data (dry_freq c) (wet_freq c)) fs"

text \<open>
  The body of the \<^verbatim>\<open>try\<close> in \<^verbatim>\<open>load\<close>:
  \<^verbatim>\<open>
            with open(self.filename, 'r') as f:
                data = json.load(f)
                self.dry_freq = data.get('dry_freq', 27.0)
                self.wet_freq = data.get('wet_freq', 5.0)
  \<close>
  An error leaves the object as it was at the raise.
\<close>

definition Configuration_load_try ::
  "Configuration \<Rightarrow> file_store \<Rightarrow> py_error \<times> Configuration + Configuration" where
  "Configuration_load_try c fs =
     (case json_load fs (filename c) of
        Inl e \<Rightarrow> Inl (e, c)
      | Inr data \<Rightarrow>
          (case json_get data ''dry_freq'' (JNum 27) of
             Inl e \<Rightarrow> Inl (e, c)
           | Inr d \<Rightarrow>
               (let c1 = c\<lparr>dry_freq := d\<rparr> in
                case json_get data ''wet_freq'' (JNum 5) of
                  Inl e \<Rightarrow> Inl (e, c1)
                | Inr w \<Rightarrow> Inr (c1\<lparr>wet_freq := w\<rparr>))))"

text \<open>
  \<^verbatim>\<open>load\<close>: the bare \<^verbatim>\<open>except:\<close> catches every error of the \<^verbatim>\<open>try\<close> and
  calls \<^verbatim>\<open>self.save()\<close>; an error of that call leaves \<^verbatim>\<open>load\<close>. The result is
  the return or the error raised, with the object and the store as they are then.
\<close>

definition Configuration_load ::
  "Configuration \<Rightarrow> file_store \<Rightarrow> (py_error + unit) \<times> Configuration \<times> file_store" where
  "Configuration_load c fs =
     (case Configuration_load_try c fs of
        Inr c' \<Rightarrow> (Inr (), c', fs)
      | Inl (e, c') \<Rightarrow>
          (case Configuration_save c' fs of (r, fs') \<Rightarrow> (r, c', fs')))"

text \<open>
  \<^verbatim>\<open>__init__\<close>; an error of \<^verbatim>\<open>load\<close> leaves the constructor, and then there
  is no object:
  \<^verbatim>\<open>
        self.filename = filename
        self.dry_freq = 27.0
        self.wet_freq = 5.0
        self.load()
  \<close>
\<close>

definition Configuration_init ::
  "string \<Rightarrow> file_store \<Rightarrow> (py_error + Configuration) \<times> file_store" where
  "Configuration_init name fs =
     (case Configuration_load \<lparr>filename = name, dry_freq = JNum 27, wet_freq = JNum 5\<rparr> fs of
        (Inl e, c, fs') \<Rightarrow> (Inl e, fs')
      | (Inr _, c, fs') \<Rightarrow> (Inr c, fs'))"

section \<open>calibrate.py: the calibration procedure\<close>

text \<open>
  \<^verbatim>\<open>
  CONFIG_FILE = 'moisture_config.json'
  PREP_TIME = 10  # Seconds to prepare sensor between measurements
  SAMPLE_TIME = 3  # Seconds to measure frequency (for accuracy)
  \<close>
\<close>

definition CONFIG_FILE :: string where
  "CONFIG_FILE = ''moisture_config.json''"

definition PREP_TIME :: nat where
  "PREP_TIME = 10"

definition SAMPLE_TIME :: real where
  "SAMPLE_TIME = 3"

text \<open>
  What the operator sees is the display. A line of a message is a literal text or one of
  the two formatted texts of the script, kept with the value formatted:
  \<^verbatim>\<open>f"{x:.1f} Hz"\<close> and \<^verbatim>\<open>f"{i} seconds..."\<close>. The display shows one
  message at a time; the model keeps every message shown, oldest first. The console
  (\<^verbatim>\<open>print\<close>) and the pauses (\<^verbatim>\<open>time.sleep\<close> outside a measurement) are not
  part of the state.
\<close>

datatype line = Txt string | Hz1 real | Seconds nat

datatype oled_event = Message line line line line | Blank

record world =
  files :: file_store
  oled :: "oled_event list"

text \<open>\<^verbatim>\<open>MoistureDisplay.show_message(line1, line2, line3, line4)\<close>.\<close>

definition show_message :: "line \<Rightarrow> line \<Rightarrow> line \<Rightarrow> line \<Rightarrow> world \<Rightarrow> world" where
  "show_message line1 line2 line3 line4 u = u\<lparr>oled := oled u @ [Message line1 line2 line3 line4]\<rparr>"

text \<open>\<^verbatim>\<open>display.oled.fill(0); display.oled.show()\<close>, the last two statements of main.\<close>

definition oled_clear :: "world \<Rightarrow> world" where
  "oled_clear u = u\<lparr>oled := oled u @ [Blank]\<rparr>"

text \<open>
  \<^verbatim>\<open>
  def countdown_timer(display, seconds, message):
      for i in range(seconds, 0, -1):
          display.show_message(message, "", f"{i} seconds...", "Get ready!")
          time.sleep(1)
  \<close>
\<close>

fun countdown_timer :: "nat \<Rightarrow> string \<Rightarrow> world \<Rightarrow> world" where
  "countdown_timer 0 message u = u"
| "countdown_timer (Suc i) message u =
     countdown_timer i message
       (show_message (Txt message) (Txt '''') (Seconds (Suc i)) (Txt ''Get ready!'') u)"

text \<open>
  \<^verbatim>\<open>save_config\<close>; nothing in it catches an error of the write:
  \<^verbatim>\<open>
  def save_config(dry_freq, wet_freq):
      data = {'dry_freq': dry_freq, 'wet_freq': wet_freq}
      with open(CONFIG_FILE, 'w') as f:
          json.dump(data, f)
  \<close>
\<close>

definition save_config :: "real \<Rightarrow> real \<Rightarrow> world \<Rightarrow> (py_error + unit) \<times> world" where
  "save_config d w u =
     (case json_dump CONFIG_FILE (config_data (JNum d) (JNum w)) (files u) of
        (r, fs') \<Rightarrow> (r, u\<lparr>files := fs'\<rparr>))"

text \<open>
  The part of \<^verbatim>\<open>main\<close> under its heading VALIDATION \<open>&\<close> SAVE (calibrate.py lines 186
  to 255), as a function of the two measured frequencies. An error of
  \<^verbatim>\<open>save_config\<close> leaves \<^verbatim>\<open>main\<close> at once.
  \<^verbatim>\<open>
    if wet_freq >= dry_freq:
        display.show_message("ERROR!", "Dry <= Wet", "Try again", "")
        return
    if dry_freq < 15:
        display.show_message("WARNING!", "Low dry freq", "Check setup", "")
    if wet_freq > 10:
        display.show_message("WARNING!", "High wet freq", "Check setup", "")
    save_config(dry_freq, wet_freq)
    display.show_message("Calibration", "COMPLETE!", "", "Saved!")
    display.show_message("Ready to", "monitor!", "", "Run main.py")
    display.oled.fill(0)
    display.oled.show()
  \<close>
\<close>

definition validate_and_save :: "real \<Rightarrow> real \<Rightarrow> world \<Rightarrow> (py_error + unit) \<times> world" where
  "validate_and_save d w u =
     (if w \<ge> d then
        (Inr (), show_message (Txt ''ERROR!'') (Txt ''Dry <= Wet'') (Txt ''Try again'') (Txt '''') u)
      else
        (let u1 = (if d < 15
                   then show_message (Txt ''WARNING!'') (Txt ''Low dry freq'')
                          (Txt ''Check setup'') (Txt '''') u
                   else u);
             u2 = (if w > 10
                   then show_message (Txt ''WARNING!'') (Txt ''High wet freq'')
                          (Txt ''Check setup'') (Txt '''') u1
                   else u1)
         in case save_config d w u2 of
              (Inl e, u3) \<Rightarrow> (Inl e, u3)
            | (Inr _, u3) \<Rightarrow>
                (let u4 = show_message (Txt ''Calibration'') (Txt ''COMPLETE!'') (Txt '''')
                            (Txt ''Saved!'') u3;
                     u5 = show_message (Txt ''Ready to'') (Txt ''monitor!'') (Txt '''')
                            (Txt ''Run main.py'') u4
                 in (Inr (), oled_clear u5))))"

text \<open>
  \<^verbatim>\<open>main\<close>: the two prompted measurements (lines 117 to 184), then the validation.
  The inputs are the numbers of rising edges the line sees in the dry and in the wet
  sampling window. An error of a measurement leaves \<^verbatim>\<open>main\<close> at once.
  \<^verbatim>\<open>
    sensor = MoistureSensor(SENSOR_PIN)
    display.show_message("CALIBRATION", "Starting...", "", "")
    display.show_message("STEP 1:", "Remove sensor", "Hold in AIR", "")
    countdown_timer(display, PREP_TIME, "DRY - Hold in air")
    display.show_message("Measuring...", "DRY reading", "Hold still!", "")
    dry_freq = sensor.read_frequency(SAMPLE_TIME)
    display.show_message("DRY Reading:", f"{dry_freq:.1f} Hz", "(HIGH freq)", "Step 1 done!")
    display.show_message("STEP 2:", "Put sensor", "in WATER", "")
    countdown_timer(display, PREP_TIME, "WET - Put in water")
    display.show_message("Measuring...", "WET reading", "Hold still!", "")
    wet_freq = sensor.read_frequency(SAMPLE_TIME)
    display.show_message("WET Reading:", f"{wet_freq:.1f} Hz", "(LOW freq)", "Step 2 done!")
  \<close>
\<close>

definition calibrate_main :: "nat \<Rightarrow> nat \<Rightarrow> world \<Rightarrow> (py_error + unit) \<times> world" where
  "calibrate_main edges_dry edges_wet u0 =
     (let sensor = MoistureSensor_init;
          u1 = show_message (Txt ''CALIBRATION'') (Txt ''Starting...'') (Txt '''') (Txt '''') u0;
          u2 = show_message (Txt ''STEP 1:'') (Txt ''Remove sensor'') (Txt ''Hold in AIR'') (Txt '''') u1;
          u3 = countdown_timer PREP_TIME ''DRY - Hold in air'' u2;
          u4 = show_message (Txt ''Measuring...'') (Txt ''DRY reading'') (Txt ''Hold still!'') (Txt '''') u3
      in case read_frequency sensor edges_dry SAMPLE_TIME of
           (Inl e, sensor1) \<Rightarrow> (Inl e, u4)
         | (Inr d, sensor1) \<Rightarrow>
             (let u5 = show_message (Txt ''DRY Reading:'') (Hz1 d) (Txt ''(HIGH freq)'')
                         (Txt ''Step 1 done!'') u4;
                  u6 = show_message (Txt ''STEP 2:'') (Txt ''Put sensor'') (Txt ''in WATER'') (Txt '''') u5;
                  u7 = countdown_timer PREP_TIME ''WET - Put in water'' u6;
                  u8 = show_message (Txt ''Measuring...'') (Txt ''WET reading'') (Txt ''Hold still!'')
                         (Txt '''') u7
              in case read_frequency sensor1 edges_wet SAMPLE_TIME of
                   (Inl e, sensor2) \<Rightarrow> (Inl e, u8)
                 | (Inr w, sensor2) \<Rightarrow>
                     (let u9 = show_message (Txt ''WET Reading:'') (Hz1 w) (Txt ''(LOW freq)'')
                                 (Txt ''Step 2 done!'') u8
                      in validate_and_save d w u9)))"

section \<open>Properties of the conversion\<close>

lemma to_moisture_percent_neq:
  "d \<noteq> w \<Longrightarrow>
   to_moisture_percent d w f =
     Inr (max 0 (min 100 ((d - max (min f d) w) / (d - w) * 100)))"
  by (simp add: to_moisture_percent_def py_truediv_def Let_def)

lemma to_moisture_percent_eq:
  "to_moisture_percent c c f = Inr 0"
  by (simp add: to_moisture_percent_def)

lemma ratio_bounds:
  fixes d w x :: real
  assumes "w < d" "w \<le> x" "x \<le> d"
  shows "0 \<le> (d - x) / (d - w) * 100" and "(d - x) / (d - w) * 100 \<le> 100"
proof -
  from assms have pos: "0 < d - w" by simp
  from assms have "0 \<le> (d - x) / (d - w)" by simp
  then show "0 \<le> (d - x) / (d - w) * 100" by (rule mult_nonneg_nonneg) simp
  from assms pos have "(d - x) / (d - w) \<le> 1" by (simp add: divide_le_eq)
  then have "(d - x) / (d - w) * 100 \<le> 1 * 100" by (rule mult_right_mono) simp
  then show "(d - x) / (d - w) * 100 \<le> 100" by simp
qed

lemma clamp_between:
  fixes d w f :: real
  assumes "w < d"
  shows "w \<le> max (min f d) w" and "max (min f d) w \<le> d"
  using assms by auto

lemma to_moisture_percent_valid:
  assumes "w < d"
  shows "to_moisture_percent d w f = Inr (spec_moisture_percent d w f)"
proof -
  let ?x = "max (min f d) w"
  let ?p = "(d - ?x) / (d - w) * 100"
  have b: "0 \<le> ?p" "?p \<le> 100"
    using ratio_bounds [OF assms clamp_between [OF assms, of f]] by blast+
  from assms have "d \<noteq> w" by simp
  then have "to_moisture_percent d w f = Inr (max 0 (min 100 ?p))"
    by (rule to_moisture_percent_neq)
  also from b have "max 0 (min 100 ?p) = ?p" by simp
  finally show ?thesis by (simp add: spec_moisture_percent_def Let_def)
qed

lemma spec_moisture_percent_inside:
  "w \<le> f \<Longrightarrow> f \<le> d \<Longrightarrow> spec_moisture_percent d w f = (d - f) / (d - w) * 100"
  by (simp add: spec_moisture_percent_def Let_def min_def max_def)

text \<open>
  Claim C1. For every real frequency and every pair of calibration values, the conversion
  returns a value (it raises nothing, in particular no \<open>ZeroDivisionError\<close>), and the
  value lies in the closed interval from 0 to 100.
\<close>

theorem to_moisture_percent_total_bounded:
  "\<exists>p. to_moisture_percent d w f = Inr p \<and> 0 \<le> p \<and> p \<le> 100"
proof (cases "d = w")
  case True
  then show ?thesis by (simp add: to_moisture_percent_eq)
next
  case False
  then show ?thesis by (simp add: to_moisture_percent_neq)
qed

text \<open>
  Claim C2. When the dry frequency is above the wet frequency, the conversion of the code
  equals the reference algorithm of the specification (clamp by \<open>max(min(f, d), w)\<close>, then
  \<open>(d - clamped) / (d - w) * 100\<close>). With dry 27 and wet 5 the conversion of 16 is 50, of
  30 is 0 and of 0 is 100.
\<close>

theorem to_moisture_percent_refines_spec:
  "(w < d \<longrightarrow> to_moisture_percent d w f = Inr (spec_moisture_percent d w f))
   \<and> to_moisture_percent 27 5 16 = Inr 50
   \<and> to_moisture_percent 27 5 30 = Inr 0
   \<and> to_moisture_percent 27 5 0 = Inr 100"
proof (intro conjI impI)
  assume "w < d"
  then show "to_moisture_percent d w f = Inr (spec_moisture_percent d w f)"
    by (rule to_moisture_percent_valid)
next
  show "to_moisture_percent 27 5 16 = Inr 50"
    by (simp add: to_moisture_percent_neq)
next
  show "to_moisture_percent 27 5 30 = Inr 0"
    by (simp add: to_moisture_percent_neq)
next
  show "to_moisture_percent 27 5 0 = Inr 100"
    by (simp add: to_moisture_percent_neq)
qed

theorem to_moisture_percent_refines_spec_witness:
  "(5::real) < 27
   \<and> to_moisture_percent 27 5 16 = Inr (spec_moisture_percent 27 5 16)
   \<and> spec_moisture_percent 27 5 16 = 50"
  using to_moisture_percent_refines_spec [of 5 27 16]
  by (simp add: spec_moisture_percent_def)

text \<open>
  Claim C3. For a calibration with wet below dry and two frequencies
  \<open>wet \<le> f1 < f2 \<le> dry\<close>, the percent computed for \<open>f1\<close> is at least the percent
  computed for \<open>f2\<close>.
\<close>

theorem to_moisture_percent_antitone:
  assumes "w < d" and "w \<le> f1" and "f1 < f2" and "f2 \<le> d"
  shows "\<exists>p1 p2. to_moisture_percent d w f1 = Inr p1
                \<and> to_moisture_percent d w f2 = Inr p2 \<and> p2 \<le> p1"
proof -
  from assms have in1: "w \<le> f1" "f1 \<le> d" and in2: "w \<le> f2" "f2 \<le> d" by simp_all
  have e1: "to_moisture_percent d w f1 = Inr ((d - f1) / (d - w) * 100)"
    using to_moisture_percent_valid [OF assms(1), of f1] spec_moisture_percent_inside [OF in1]
    by simp
  have e2: "to_moisture_percent d w f2 = Inr ((d - f2) / (d - w) * 100)"
    using to_moisture_percent_valid [OF assms(1), of f2] spec_moisture_percent_inside [OF in2]
    by simp
  from assms have "0 < d - w" and "d - f2 \<le> d - f1" by simp_all
  then have "(d - f2) / (d - w) \<le> (d - f1) / (d - w)"
    by (simp add: divide_right_mono)
  then have "(d - f2) / (d - w) * 100 \<le> (d - f1) / (d - w) * 100"
    by (rule mult_right_mono) simp
  with e1 e2 show ?thesis by simp
qed

theorem to_moisture_percent_antitone_witness:
  "(5::real) < 27 \<and> (5::real) \<le> 10 \<and> (10::real) < 20 \<and> (20::real) \<le> 27
   \<and> (\<exists>p1 p2. to_moisture_percent 27 5 10 = Inr p1
              \<and> to_moisture_percent 27 5 20 = Inr p2 \<and> p2 \<le> p1)"
  using to_moisture_percent_antitone [of 5 27 10 20] by simp

text \<open>
  Claim C4. When the dry and the wet frequency are equal, the conversion returns exactly 0
  for every frequency; it returns a value, so no division by zero is raised.
\<close>

theorem to_moisture_percent_degenerate:
  "d = w \<Longrightarrow> to_moisture_percent d w f = Inr 0"
  by (simp add: to_moisture_percent_eq)

theorem to_moisture_percent_degenerate_witness:
  "(7::real) = 7 \<and> to_moisture_percent 7 7 3 = Inr 0"
  using to_moisture_percent_degenerate [of 7 7 3] by simp

text \<open>
  Claim C9. When the dry frequency is below the wet frequency (an inverted calibration),
  the conversion returns exactly 100 for every frequency and raises nothing: the clamp
  \<open>max(min(f, dry), wet)\<close> is the wet frequency there.
\<close>

theorem to_moisture_percent_inverted:
  assumes "d < w"
  shows "to_moisture_percent d w f = Inr 100 \<and> max (min f d) w = w"
proof -
  from assms have c: "max (min f d) w = w" by simp
  from assms have "d \<noteq> w" by simp
  then have "to_moisture_percent d w f = Inr (max 0 (min 100 ((d - w) / (d - w) * 100)))"
    using c by (simp add: to_moisture_percent_neq)
  moreover from assms have "(d - w) / (d - w) = 1" by simp
  ultimately show ?thesis using c by simp
qed

theorem to_moisture_percent_inverted_witness:
  "(5::real) < 10 \<and> to_moisture_percent 5 10 16 = Inr 100 \<and> max (min 16 5) 10 = (10::real)"
  using to_moisture_percent_inverted [of 5 10 16] by simp

section \<open>Properties of the measurement\<close>

lemma sleep_with_edges_count:
  "irq_handler s \<Longrightarrow> sleep_with_edges n s = s\<lparr>pulse_count := pulse_count s + n\<rparr>"
proof (induction n)
  case 0
  then show ?case by (simp add: sleep_with_edges_def)
next
  case (Suc n)
  then show ?case
    by (simp add: sleep_with_edges_def rising_edge_def count_pulse_def)
qed

lemma read_frequency_nonzero:
  assumes "sample_time \<noteq> 0"
  shows "read_frequency s edges sample_time =
           (Inr (real edges / sample_time),
            s\<lparr>pulse_count := edges, last_frequency := real edges / sample_time,
              irq_handler := False\<rparr>)"
  using assms
  by (simp add: read_frequency_def Let_def py_truediv_def sleep_with_edges_count)

text \<open>
  Claim C5. For every positive sample duration, \<open>read_frequency\<close> returns the number of
  rising edges counted in the window divided by the duration, and that number is what
  \<open>pulse_count\<close> holds afterwards. Ten pulses over 2 seconds give 5 Hz; no pulse gives
  0 Hz, a value and not an error.
\<close>

theorem read_frequency_value:
  "(0 < sample_time \<longrightarrow>
      fst (read_frequency s edges sample_time) = Inr (real edges / sample_time)
      \<and> pulse_count (snd (read_frequency s edges sample_time)) = edges)
   \<and> fst (read_frequency s 10 2) = Inr 5
   \<and> (0 < sample_time \<longrightarrow> fst (read_frequency s 0 sample_time) = Inr 0)"
  by (simp add: read_frequency_nonzero)

theorem read_frequency_value_witness:
  "(0::real) < 3
   \<and> fst (read_frequency MoistureSensor_init 15 3) = Inr 5
   \<and> pulse_count (snd (read_frequency MoistureSensor_init 15 3)) = 15
   \<and> fst (read_frequency MoistureSensor_init 0 3) = Inr 0"
  using read_frequency_value [of 3 MoistureSensor_init 15] by simp

text \<open>
  The method \<open>read_moisture_percent\<close> as a whole, measurement included, returns a value
  between 0 and 100 for every number of edges and every calibration.
\<close>

lemma read_moisture_percent_total_bounded:
  "\<exists>p. fst (read_moisture_percent s edges d w) = Inr p \<and> 0 \<le> p \<and> p \<le> 100"
proof -
  have nz: "FREQUENCY_SAMPLE_TIME \<noteq> 0" by (simp add: FREQUENCY_SAMPLE_TIME_def)
  have "fst (read_moisture_percent s edges d w) =
          to_moisture_percent d w (real edges / FREQUENCY_SAMPLE_TIME)"
    by (simp add: read_moisture_percent_def read_frequency_nonzero [OF nz])
  moreover have "\<exists>p. to_moisture_percent d w (real edges / FREQUENCY_SAMPLE_TIME) = Inr p
                    \<and> 0 \<le> p \<and> p \<le> 100"
    by (cases "d = w") (simp_all add: to_moisture_percent_eq to_moisture_percent_neq)
  ultimately show ?thesis by simp
qed


section \<open>Properties of the calibration procedure\<close>

lemma show_message_files [simp]: "files (show_message a b c d u) = files u"
  by (simp add: show_message_def)

lemma show_message_oled [simp]:
  "oled (show_message a b c d u) = oled u @ [Message a b c d]"
  by (simp add: show_message_def)

lemma oled_clear_files [simp]: "files (oled_clear u) = files u"
  by (simp add: oled_clear_def)

lemma oled_clear_oled [simp]: "oled (oled_clear u) = oled u @ [Blank]"
  by (simp add: oled_clear_def)

lemma countdown_timer_files [simp]: "files (countdown_timer n m u) = files u"
  by (induction n m u rule: countdown_timer.induct) simp_all

text \<open>The countdown shows the seconds from \<open>n\<close> down to 1.\<close>

lemma countdown_timer_oled:
  "oled (countdown_timer n m u) =
     oled u @ map (\<lambda>i. Message (Txt m) (Txt '''') (Seconds i) (Txt ''Get ready!'')) (rev [1..<Suc n])"
  by (induction n arbitrary: u) simp_all

text \<open>The three outcomes of \<open>save_config\<close>, by what writing does under \<open>CONFIG_FILE\<close>.\<close>

lemma save_config_writable:
  "write_access (files u) CONFIG_FILE = Writable \<Longrightarrow>
   save_config d w u =
     (Inr (), u\<lparr>files := (files u)\<lparr>content :=
        (content (files u))(CONFIG_FILE := Document (config_data (JNum d) (JNum w)))\<rparr>\<rparr>)"
  by (simp add: save_config_def json_dump_def)

lemma save_config_open_raises:
  "write_access (files u) CONFIG_FILE = OpenRaises \<Longrightarrow> save_config d w u = (Inl OSError, u)"
  by (simp add: save_config_def json_dump_def)

lemma save_config_dump_raises:
  "write_access (files u) CONFIG_FILE = DumpRaises \<Longrightarrow>
   save_config d w u =
     (Inl OSError, u\<lparr>files := (files u)\<lparr>content := (content (files u))(CONFIG_FILE := Unparsable)\<rparr>\<rparr>)"
  by (simp add: save_config_def json_dump_def)

lemma save_config_oled [simp]: "oled (snd (save_config d w u)) = oled u"
  by (simp add: save_config_def split: prod.splits)

lemma validate_and_save_rejected:
  "d \<le> w \<Longrightarrow> validate_and_save d w u =
     (Inr (), show_message (Txt ''ERROR!'') (Txt ''Dry <= Wet'') (Txt ''Try again'') (Txt '''') u)"
  by (simp add: validate_and_save_def)

lemma validate_and_save_writable:
  assumes "w < d" and "write_access (files u) CONFIG_FILE = Writable"
  shows "fst (validate_and_save d w u) = Inr ()"
    and "files (snd (validate_and_save d w u)) =
           (files u)\<lparr>content :=
             (content (files u))(CONFIG_FILE := Document (config_data (JNum d) (JNum w)))\<rparr>"
  using assms by (simp_all add: validate_and_save_def Let_def save_config_writable)

text \<open>
  When \<open>open\<close> raises in \<open>save_config\<close>, the error leaves the validation after the
  warnings and the store is as it was.
\<close>

lemma validate_and_save_open_raises:
  assumes "w < d" and "write_access (files u) CONFIG_FILE = OpenRaises"
  shows "fst (validate_and_save d w u) = Inl OSError"
    and "files (snd (validate_and_save d w u)) = files u"
  using assms by (simp_all add: validate_and_save_def Let_def save_config_open_raises)

text \<open>When \<open>json.dump\<close> raises, the configuration file is left without a document.\<close>

lemma validate_and_save_dump_raises:
  assumes "w < d" and "write_access (files u) CONFIG_FILE = DumpRaises"
  shows "fst (validate_and_save d w u) = Inl OSError"
    and "content (files (snd (validate_and_save d w u))) CONFIG_FILE = Unparsable"
  using assms by (simp_all add: validate_and_save_def Let_def save_config_dump_raises)

text \<open>
  The messages of an accepted calibration: the warnings come before the write and are
  shown whatever the write does; the closing messages follow a write that succeeded.
\<close>

lemma validate_and_save_accepted_oled:
  "w < d \<Longrightarrow> oled (snd (validate_and_save d w u)) =
     oled u
     @ (if d < 15 then [Message (Txt ''WARNING!'') (Txt ''Low dry freq'') (Txt ''Check setup'') (Txt '''')] else [])
     @ (if 10 < w then [Message (Txt ''WARNING!'') (Txt ''High wet freq'') (Txt ''Check setup'') (Txt '''')] else [])
     @ (if write_access (files u) CONFIG_FILE = Writable
        then [Message (Txt ''Calibration'') (Txt ''COMPLETE!'') (Txt '''') (Txt ''Saved!''),
              Message (Txt ''Ready to'') (Txt ''monitor!'') (Txt '''') (Txt ''Run main.py''),
              Blank]
        else [])"
  by (cases "write_access (files u) CONFIG_FILE")
     (simp_all add: validate_and_save_def Let_def save_config_writable
        save_config_open_raises save_config_dump_raises)

text \<open>
  \<open>main\<close> always reaches the validation, with the two quotients of the edge counts by
  \<open>SAMPLE_TIME\<close>, the files untouched and only messages added to the display.
\<close>

lemma calibrate_main_unfold:
  "\<exists>u'. files u' = files u
      \<and> (\<exists>evs. oled u' = oled u @ evs)
      \<and> calibrate_main edges_dry edges_wet u =
          validate_and_save (real edges_dry / SAMPLE_TIME) (real edges_wet / SAMPLE_TIME) u'"
proof -
  have nz: "SAMPLE_TIME \<noteq> 0" by (simp add: SAMPLE_TIME_def)
  show ?thesis
    apply (simp add: calibrate_main_def Let_def read_frequency_nonzero [OF nz])
    apply (rule exI)
    apply (intro conjI)
      prefer 3
      apply (rule refl)
     apply simp
    apply (simp add: countdown_timer_oled)
    done
qed

text \<open>
  Claim C6. When the measured wet frequency is at or above the measured dry frequency, the
  procedure refuses the values: it shows the error message and returns without writing,
  so the file store, the configuration file in it, is as it was, whatever writing would
  have done. This holds of the validation for all values, of \<open>main\<close> for all edge counts,
  and at dry 5, wet 10.
\<close>

theorem calibration_rejects_inverted:
  "(d \<le> w \<longrightarrow>
      fst (validate_and_save d w u) = Inr ()
      \<and> files (snd (validate_and_save d w u)) = files u
      \<and> last (oled (snd (validate_and_save d w u))) =
          Message (Txt ''ERROR!'') (Txt ''Dry <= Wet'') (Txt ''Try again'') (Txt ''''))
   \<and> (real edges_dry / SAMPLE_TIME \<le> real edges_wet / SAMPLE_TIME \<longrightarrow>
        fst (calibrate_main edges_dry edges_wet u) = Inr ()
        \<and> files (snd (calibrate_main edges_dry edges_wet u)) = files u
        \<and> last (oled (snd (calibrate_main edges_dry edges_wet u))) =
            Message (Txt ''ERROR!'') (Txt ''Dry <= Wet'') (Txt ''Try again'') (Txt ''''))
   \<and> files (snd (validate_and_save 5 10 u)) = files u"
proof (intro conjI impI)
  assume "d \<le> w"
  then show "fst (validate_and_save d w u) = Inr ()"
    and "files (snd (validate_and_save d w u)) = files u"
    and "last (oled (snd (validate_and_save d w u))) =
          Message (Txt ''ERROR!'') (Txt ''Dry <= Wet'') (Txt ''Try again'') (Txt '''')"
    by (simp_all add: validate_and_save_rejected)
next
  assume le: "real edges_dry / SAMPLE_TIME \<le> real edges_wet / SAMPLE_TIME"
  from calibrate_main_unfold [of u edges_dry edges_wet] obtain u' where
    f: "files u' = files u" and
    m: "calibrate_main edges_dry edges_wet u =
          validate_and_save (real edges_dry / SAMPLE_TIME) (real edges_wet / SAMPLE_TIME) u'"
    by blast
  from m le show "fst (calibrate_main edges_dry edges_wet u) = Inr ()"
    by (simp add: validate_and_save_rejected)
  from m le f show "files (snd (calibrate_main edges_dry edges_wet u)) = files u"
    by (simp add: validate_and_save_rejected)
  from m le show "last (oled (snd (calibrate_main edges_dry edges_wet u))) =
            Message (Txt ''ERROR!'') (Txt ''Dry <= Wet'') (Txt ''Try again'') (Txt '''')"
    by (simp add: validate_and_save_rejected)
next
  show "files (snd (validate_and_save 5 10 u)) = files u"
    by (simp add: validate_and_save_rejected)
qed

theorem calibration_rejects_inverted_witness:
  "(5::real) \<le> 10
   \<and> real 15 / SAMPLE_TIME \<le> real 30 / SAMPLE_TIME
   \<and> files (snd (validate_and_save 5 10
        \<lparr>files = \<lparr>content = (\<lambda>n. Absent)(CONFIG_FILE := Document (config_data (JNum 27) (JNum 5))),
                  write_access = (\<lambda>n. Writable)\<rparr>, oled = []\<rparr>))
       = \<lparr>content = (\<lambda>n. Absent)(CONFIG_FILE := Document (config_data (JNum 27) (JNum 5))),
          write_access = (\<lambda>n. Writable)\<rparr>
   \<and> files (snd (calibrate_main 15 30
        \<lparr>files = \<lparr>content = (\<lambda>n. Absent)(CONFIG_FILE := Document (config_data (JNum 27) (JNum 5))),
                  write_access = (\<lambda>n. Writable)\<rparr>, oled = []\<rparr>))
       = \<lparr>content = (\<lambda>n. Absent)(CONFIG_FILE := Document (config_data (JNum 27) (JNum 5))),
          write_access = (\<lambda>n. Writable)\<rparr>"
  using calibration_rejects_inverted [of 5 10
      "\<lparr>files = \<lparr>content = (\<lambda>n. Absent)(CONFIG_FILE := Document (config_data (JNum 27) (JNum 5))),
                write_access = (\<lambda>n. Writable)\<rparr>, oled = []\<rparr>" 15 30]
  by (simp add: SAMPLE_TIME_def)

text \<open>
  Claim C8, as the code has it. When the measured dry frequency is above the wet one but
  the dry frequency is below 15 Hz or the wet frequency is above 10 Hz, the procedure
  shows the warning for each value out of range; and when the configuration file can be
  written, it returns with both values written to that file. This holds of the
  validation for all values and of \<open>main\<close> for all edge counts.
\<close>

theorem calibration_warns_and_saves:
  "(w < d \<and> (d < 15 \<or> 10 < w) \<longrightarrow>
      (\<exists>evs. oled (snd (validate_and_save d w u)) = oled u @ evs
          \<and> (d < 15 \<longrightarrow>
               Message (Txt ''WARNING!'') (Txt ''Low dry freq'') (Txt ''Check setup'') (Txt '''') \<in> set evs)
          \<and> (10 < w \<longrightarrow>
               Message (Txt ''WARNING!'') (Txt ''High wet freq'') (Txt ''Check setup'') (Txt '''') \<in> set evs))
      \<and> (write_access (files u) CONFIG_FILE = Writable \<longrightarrow>
           fst (validate_and_save d w u) = Inr ()
           \<and> files (snd (validate_and_save d w u)) =
               (files u)\<lparr>content := (content (files u))
                  (CONFIG_FILE := Document (JObj [(''dry_freq'', JNum d), (''wet_freq'', JNum w)]))\<rparr>))
   \<and> (real edges_wet / SAMPLE_TIME < real edges_dry / SAMPLE_TIME
        \<and> (real edges_dry / SAMPLE_TIME < 15 \<or> 10 < real edges_wet / SAMPLE_TIME) \<longrightarrow>
        (\<exists>evs. oled (snd (calibrate_main edges_dry edges_wet u)) = oled u @ evs
            \<and> (real edges_dry / SAMPLE_TIME < 15 \<longrightarrow>
                 Message (Txt ''WARNING!'') (Txt ''Low dry freq'') (Txt ''Check setup'') (Txt '''') \<in> set evs)
            \<and> (10 < real edges_wet / SAMPLE_TIME \<longrightarrow>
                 Message (Txt ''WARNING!'') (Txt ''High wet freq'') (Txt ''Check setup'') (Txt '''') \<in> set evs))
        \<and> (write_access (files u) CONFIG_FILE = Writable \<longrightarrow>
             fst (calibrate_main edges_dry edges_wet u) = Inr ()
             \<and> files (snd (calibrate_main edges_dry edges_wet u)) =
                 (files u)\<lparr>content := (content (files u))
                    (CONFIG_FILE := Document (JObj [(''dry_freq'', JNum (real edges_dry / SAMPLE_TIME)),
                                                   (''wet_freq'', JNum (real edges_wet / SAMPLE_TIME))]))\<rparr>))"
proof (intro conjI impI)
  assume a: "w < d \<and> (d < 15 \<or> 10 < w)"
  then have lt: "w < d" by simp
  from validate_and_save_accepted_oled [OF lt, of u]
  show "\<exists>evs. oled (snd (validate_and_save d w u)) = oled u @ evs
          \<and> (d < 15 \<longrightarrow>
               Message (Txt ''WARNING!'') (Txt ''Low dry freq'') (Txt ''Check setup'') (Txt '''') \<in> set evs)
          \<and> (10 < w \<longrightarrow>
               Message (Txt ''WARNING!'') (Txt ''High wet freq'') (Txt ''Check setup'') (Txt '''') \<in> set evs)"
    by simp
  assume wr: "write_access (files u) CONFIG_FILE = Writable"
  from validate_and_save_writable [OF lt wr]
  show "fst (validate_and_save d w u) = Inr ()"
    and "files (snd (validate_and_save d w u)) =
               (files u)\<lparr>content := (content (files u))
                  (CONFIG_FILE := Document (JObj [(''dry_freq'', JNum d), (''wet_freq'', JNum w)]))\<rparr>"
    by (simp_all add: config_data_def)
next
  let ?d = "real edges_dry / SAMPLE_TIME" and ?w = "real edges_wet / SAMPLE_TIME"
  assume a: "?w < ?d \<and> (?d < 15 \<or> 10 < ?w)"
  then have lt: "?w < ?d" by simp
  from calibrate_main_unfold [of u edges_dry edges_wet] obtain u' evs0 where
    f: "files u' = files u" and
    o: "oled u' = oled u @ evs0" and
    m: "calibrate_main edges_dry edges_wet u = validate_and_save ?d ?w u'"
    by blast
  from validate_and_save_accepted_oled [OF lt, of u'] m o
  show "\<exists>evs. oled (snd (calibrate_main edges_dry edges_wet u)) = oled u @ evs
            \<and> (?d < 15 \<longrightarrow>
                 Message (Txt ''WARNING!'') (Txt ''Low dry freq'') (Txt ''Check setup'') (Txt '''') \<in> set evs)
            \<and> (10 < ?w \<longrightarrow>
                 Message (Txt ''WARNING!'') (Txt ''High wet freq'') (Txt ''Check setup'') (Txt '''') \<in> set evs)"
    by simp
  assume "write_access (files u) CONFIG_FILE = Writable"
  with f have wr: "write_access (files u') CONFIG_FILE = Writable" by simp
  from validate_and_save_writable [OF lt wr] m f
  show "fst (calibrate_main edges_dry edges_wet u) = Inr ()"
    and "files (snd (calibrate_main edges_dry edges_wet u)) =
                 (files u)\<lparr>content := (content (files u))
                    (CONFIG_FILE := Document (JObj [(''dry_freq'', JNum ?d), (''wet_freq'', JNum ?w)]))\<rparr>"
    by (simp_all add: config_data_def)
qed

theorem calibration_warns_and_saves_witness:
  "(11::real) < 14 \<and> ((14::real) < 15 \<or> (10::real) < 11)
   \<and> write_access \<lparr>content = (\<lambda>n. Absent), write_access = (\<lambda>n. Writable)\<rparr> CONFIG_FILE = Writable
   \<and> files (snd (validate_and_save 14 11
        \<lparr>files = \<lparr>content = (\<lambda>n. Absent), write_access = (\<lambda>n. Writable)\<rparr>, oled = []\<rparr>)) =
       \<lparr>content = (\<lambda>n. Absent)
          (CONFIG_FILE := Document (JObj [(''dry_freq'', JNum 14), (''wet_freq'', JNum 11)])),
        write_access = (\<lambda>n. Writable)\<rparr>
   \<and> real 33 / SAMPLE_TIME < real 42 / SAMPLE_TIME
   \<and> files (snd (calibrate_main 42 33
        \<lparr>files = \<lparr>content = (\<lambda>n. Absent), write_access = (\<lambda>n. Writable)\<rparr>, oled = []\<rparr>)) =
       \<lparr>content = (\<lambda>n. Absent)
          (CONFIG_FILE := Document (JObj [(''dry_freq'', JNum 14), (''wet_freq'', JNum 11)])),
        write_access = (\<lambda>n. Writable)\<rparr>"
  using calibration_warns_and_saves [of 11 14
      "\<lparr>files = \<lparr>content = (\<lambda>n. Absent), write_access = (\<lambda>n. Writable)\<rparr>, oled = []\<rparr>" 33 42]
  by (simp add: SAMPLE_TIME_def)

text \<open>
  Claim C8 as the specification words it, that the values are persisted whenever the
  inversion check passes, fails where the configuration file cannot be opened for
  writing: at dry 14 Hz and wet 11 Hz (42 and 33 edges in 3 seconds), with no
  configuration file and a store that refuses the write, both warnings are shown, then
  \<open>OSError\<close> leaves the validation and \<open>main\<close>, and there is still no configuration file.
\<close>

theorem calibration_warns_and_saves_counterexample:
  "(11::real) < 14 \<and> (14::real) < 15 \<and> (10::real) < 11
   \<and> fst (validate_and_save 14 11
        \<lparr>files = \<lparr>content = (\<lambda>n. Absent), write_access = (\<lambda>n. OpenRaises)\<rparr>, oled = []\<rparr>)
       = Inl OSError
   \<and> content (files (snd (validate_and_save 14 11
        \<lparr>files = \<lparr>content = (\<lambda>n. Absent), write_access = (\<lambda>n. OpenRaises)\<rparr>, oled = []\<rparr>)))
        CONFIG_FILE = Absent
   \<and> oled (snd (validate_and_save 14 11
        \<lparr>files = \<lparr>content = (\<lambda>n. Absent), write_access = (\<lambda>n. OpenRaises)\<rparr>, oled = []\<rparr>))
       = [Message (Txt ''WARNING!'') (Txt ''Low dry freq'') (Txt ''Check setup'') (Txt ''''),
          Message (Txt ''WARNING!'') (Txt ''High wet freq'') (Txt ''Check setup'') (Txt '''')]
   \<and> fst (calibrate_main 42 33
        \<lparr>files = \<lparr>content = (\<lambda>n. Absent), write_access = (\<lambda>n. OpenRaises)\<rparr>, oled = []\<rparr>)
       = Inl OSError
   \<and> content (files (snd (calibrate_main 42 33
        \<lparr>files = \<lparr>content = (\<lambda>n. Absent), write_access = (\<lambda>n. OpenRaises)\<rparr>, oled = []\<rparr>)))
        CONFIG_FILE = Absent"
proof -
  let ?u = "\<lparr>files = \<lparr>content = (\<lambda>n. Absent), write_access = (\<lambda>n. OpenRaises)\<rparr>, oled = []\<rparr>"
  have lt: "(11::real) < 14" by simp
  have acc: "write_access (files ?u) CONFIG_FILE = OpenRaises" by simp
  from calibrate_main_unfold [of ?u 42 33] obtain u' where
    f: "files u' = files ?u" and
    m: "calibrate_main 42 33 ?u = validate_and_save 14 11 u'"
    by (auto simp: SAMPLE_TIME_def)
  from f acc have acc': "write_access (files u') CONFIG_FILE = OpenRaises" by simp
  show ?thesis
    using validate_and_save_open_raises [OF lt acc] validate_and_save_open_raises [OF lt acc']
      validate_and_save_accepted_oled [OF lt, of ?u] m f
    by simp
qed

section \<open>Properties of the configuration\<close>

lemma json_get_not_object:
  "\<forall>kvs. j \<noteq> JObj kvs \<Longrightarrow> json_get j key dflt = Inl AttributeError"
  by (cases j) simp_all

text \<open>
  Every error in the \<open>try\<close> of \<open>load\<close> is raised before the first assignment, so the
  handler saves the object as it was.
\<close>

lemma json_load_failure_save:
  assumes "json_load fs (filename c) = Inl e"
  shows "Configuration_load c fs = (fst (Configuration_save c fs), c, snd (Configuration_save c fs))"
  using assms
  by (simp add: Configuration_load_def Configuration_load_try_def split: prod.splits)

lemma not_object_save:
  assumes "json_load fs (filename c) = Inr j" and "\<forall>kvs. j \<noteq> JObj kvs"
  shows "Configuration_load c fs = (fst (Configuration_save c fs), c, snd (Configuration_save c fs))"
  using assms
  by (simp add: Configuration_load_def Configuration_load_try_def json_get_not_object
      split: prod.splits)

lemma Configuration_load_no_object:
  assumes "content fs (filename c) = Absent \<or> content fs (filename c) = Unreadable
           \<or> content fs (filename c) = Unparsable
           \<or> (\<exists>j. content fs (filename c) = Document j \<and> (\<forall>kvs. j \<noteq> JObj kvs))"
  shows "Configuration_load c fs = (fst (Configuration_save c fs), c, snd (Configuration_save c fs))"
  using assms
proof (elim disjE exE conjE)
  assume "content fs (filename c) = Absent"
  then have "json_load fs (filename c) = Inl OSError" by (simp add: json_load_def)
  then show ?thesis by (rule json_load_failure_save)
next
  assume "content fs (filename c) = Unreadable"
  then have "json_load fs (filename c) = Inl OSError" by (simp add: json_load_def)
  then show ?thesis by (rule json_load_failure_save)
next
  assume "content fs (filename c) = Unparsable"
  then have "json_load fs (filename c) = Inl ValueError" by (simp add: json_load_def)
  then show ?thesis by (rule json_load_failure_save)
next
  fix j assume "content fs (filename c) = Document j" and n: "\<forall>kvs. j \<noteq> JObj kvs"
  then have "json_load fs (filename c) = Inr j" by (simp add: json_load_def)
  then show ?thesis using n by (rule not_object_save)
qed

text \<open>
  Where the file cannot be written, the constructor raises: when \<open>open\<close> raises the
  store is as it was, when \<open>json.dump\<close> raises the file is left without a document.
\<close>

lemma Configuration_init_open_raises:
  assumes "content fs name = Absent \<or> content fs name = Unreadable
           \<or> content fs name = Unparsable
           \<or> (\<exists>j. content fs name = Document j \<and> (\<forall>kvs. j \<noteq> JObj kvs))"
    and "write_access fs name = OpenRaises"
  shows "Configuration_init name fs = (Inl OSError, fs)"
proof -
  let ?c = "\<lparr>filename = name, dry_freq = JNum 27, wet_freq = JNum 5\<rparr>"
  from assms(1) have "Configuration_load ?c fs =
      (fst (Configuration_save ?c fs), ?c, snd (Configuration_save ?c fs))"
    by (intro Configuration_load_no_object) simp
  with assms(2) show ?thesis
    by (simp add: Configuration_init_def Configuration_save_def json_dump_def)
qed

lemma Configuration_init_dump_raises:
  assumes "content fs name = Absent \<or> content fs name = Unreadable
           \<or> content fs name = Unparsable
           \<or> (\<exists>j. content fs name = Document j \<and> (\<forall>kvs. j \<noteq> JObj kvs))"
    and "write_access fs name = DumpRaises"
  shows "Configuration_init name fs = (Inl OSError, fs\<lparr>content := (content fs)(name := Unparsable)\<rparr>)"
proof -
  let ?c = "\<lparr>filename = name, dry_freq = JNum 27, wet_freq = JNum 5\<rparr>"
  from assms(1) have "Configuration_load ?c fs =
      (fst (Configuration_save ?c fs), ?c, snd (Configuration_save ?c fs))"
    by (intro Configuration_load_no_object) simp
  with assms(2) show ?thesis
    by (simp add: Configuration_init_def Configuration_save_def json_dump_def)
qed

text \<open>
  Claim C7, as the code has it. When the configuration file is absent, or cannot be
  read, or does not parse, or parses to something that is not an object, and the file
  can be written, constructing the configuration yields the defaults, dry 27 and wet 5,
  and writes a file that holds exactly those two values.
\<close>

theorem Configuration_init_fallback:
  assumes "content fs name = Absent \<or> content fs name = Unreadable
           \<or> content fs name = Unparsable
           \<or> (\<exists>j. content fs name = Document j \<and> (\<forall>kvs. j \<noteq> JObj kvs))"
    and "write_access fs name = Writable"
  shows "Configuration_init name fs =
           (Inr \<lparr>filename = name, dry_freq = JNum 27, wet_freq = JNum 5\<rparr>,
            fs\<lparr>content := (content fs)
                 (name := Document (JObj [(''dry_freq'', JNum 27), (''wet_freq'', JNum 5)]))\<rparr>)"
proof -
  let ?c = "\<lparr>filename = name, dry_freq = JNum 27, wet_freq = JNum 5\<rparr>"
  from assms(1) have "Configuration_load ?c fs =
      (fst (Configuration_save ?c fs), ?c, snd (Configuration_save ?c fs))"
    by (intro Configuration_load_no_object) simp
  with assms(2) show ?thesis
    by (simp add: Configuration_init_def Configuration_save_def json_dump_def config_data_def)
qed

theorem Configuration_init_fallback_witness:
  "content \<lparr>content = (\<lambda>n. Absent), write_access = (\<lambda>n. Writable)\<rparr> CONFIG_FILE = Absent
   \<and> write_access \<lparr>content = (\<lambda>n. Absent), write_access = (\<lambda>n. Writable)\<rparr> CONFIG_FILE = Writable
   \<and> Configuration_init CONFIG_FILE \<lparr>content = (\<lambda>n. Absent), write_access = (\<lambda>n. Writable)\<rparr> =
       (Inr \<lparr>filename = CONFIG_FILE, dry_freq = JNum 27, wet_freq = JNum 5\<rparr>,
        \<lparr>content = (\<lambda>n. Absent)
           (CONFIG_FILE := Document (JObj [(''dry_freq'', JNum 27), (''wet_freq'', JNum 5)])),
         write_access = (\<lambda>n. Writable)\<rparr>)"
  using Configuration_init_fallback
    [of "\<lparr>content = (\<lambda>n. Absent), write_access = (\<lambda>n. Writable)\<rparr>" CONFIG_FILE]
  by simp

text \<open>
  Claim C7 as the specification words it, that the fallback always yields the defaults
  and a fresh file, fails where the file cannot be opened for writing. With no
  configuration file on a store that refuses the write, and with an unreadable entry
  (a directory) under the name, which cannot be opened for writing either, the
  constructor raises \<open>OSError\<close>: there is no configuration object, and what is under the
  name is what was there before.
\<close>

theorem Configuration_init_fallback_counterexample:
  "content \<lparr>content = (\<lambda>n. Absent), write_access = (\<lambda>n. OpenRaises)\<rparr> CONFIG_FILE = Absent
   \<and> fst (Configuration_init CONFIG_FILE
        \<lparr>content = (\<lambda>n. Absent), write_access = (\<lambda>n. OpenRaises)\<rparr>) = Inl OSError
   \<and> content (snd (Configuration_init CONFIG_FILE
        \<lparr>content = (\<lambda>n. Absent), write_access = (\<lambda>n. OpenRaises)\<rparr>)) CONFIG_FILE = Absent
   \<and> content \<lparr>content = (\<lambda>n. Absent)(CONFIG_FILE := Unreadable),
              write_access = (\<lambda>n. Writable)(CONFIG_FILE := OpenRaises)\<rparr> CONFIG_FILE = Unreadable
   \<and> fst (Configuration_init CONFIG_FILE
        \<lparr>content = (\<lambda>n. Absent)(CONFIG_FILE := Unreadable),
         write_access = (\<lambda>n. Writable)(CONFIG_FILE := OpenRaises)\<rparr>) = Inl OSError
   \<and> content (snd (Configuration_init CONFIG_FILE
        \<lparr>content = (\<lambda>n. Absent)(CONFIG_FILE := Unreadable),
         write_access = (\<lambda>n. Writable)(CONFIG_FILE := OpenRaises)\<rparr>)) CONFIG_FILE = Unreadable"
  by (simp add: Configuration_init_open_raises)

text \<open>
  Claim C10. When the configuration file holds a JSON object, loading takes each of the
  two fields from the object where its key is present and the default of that field (27
  for \<open>dry_freq\<close>, 5 for \<open>wet_freq\<close>) where it is missing, returns without an error and
  leaves the file store as it was: nothing is rewritten, whatever writing would have done.
\<close>

theorem Configuration_load_missing_keys:
  assumes "content fs (filename c) = Document (JObj kvs)"
  shows "Configuration_load c fs =
           (Inr (),
            c\<lparr>dry_freq := (case map_of kvs ''dry_freq'' of None \<Rightarrow> JNum 27 | Some v \<Rightarrow> v),
              wet_freq := (case map_of kvs ''wet_freq'' of None \<Rightarrow> JNum 5 | Some v \<Rightarrow> v)\<rparr>,
            fs)"
  using assms
  by (simp add: Configuration_load_def Configuration_load_try_def json_load_def
      split: option.splits)

theorem Configuration_load_missing_keys_witness:
  "content \<lparr>content = (\<lambda>n. Absent)(''cfg'' := Document (JObj [(''wet_freq'', JNum 4)])),
            write_access = (\<lambda>n. OpenRaises)\<rparr> ''cfg''
     = Document (JObj [(''wet_freq'', JNum 4)])
   \<and> Configuration_init ''cfg''
        \<lparr>content = (\<lambda>n. Absent)(''cfg'' := Document (JObj [(''wet_freq'', JNum 4)])),
         write_access = (\<lambda>n. OpenRaises)\<rparr> =
       (Inr \<lparr>filename = ''cfg'', dry_freq = JNum 27, wet_freq = JNum 4\<rparr>,
        \<lparr>content = (\<lambda>n. Absent)(''cfg'' := Document (JObj [(''wet_freq'', JNum 4)])),
         write_access = (\<lambda>n. OpenRaises)\<rparr>)"
  using Configuration_load_missing_keys
    [of "\<lparr>content = (\<lambda>n. Absent)(''cfg'' := Document (JObj [(''wet_freq'', JNum 4)])),
          write_access = (\<lambda>n. OpenRaises)\<rparr>"
        "\<lparr>filename = ''cfg'', dry_freq = JNum 27, wet_freq = JNum 5\<rparr>" "[(''wet_freq'', JNum 4)]"]
  by (simp add: Configuration_init_def)

end
